theory Spec2Isabelle
  imports Main
begin

section \<open>Python values, exceptions and strings\<close>

text \<open>
  The repository is a Python adapter between a credential vault client (package
  \<^verbatim>\<open>avp\<close>) and LLM client constructors (packages \<^verbatim>\<open>langchain_*\<close>).
  Its three modules are embedded here:
  \<^item> \<^verbatim>\<open>credential_provider.py\<close>: class \<^verbatim>\<open>AVPCredentialProvider\<close>;
  \<^item> \<^verbatim>\<open>utils.py\<close>: function \<^verbatim>\<open>get_llm_with_avp\<close>;
  \<^item> \<^verbatim>\<open>callbacks.py\<close>: class \<^verbatim>\<open>AVPCredentialCallback\<close>.

  A Python \<^verbatim>\<open>str\<close> is represented by its UTF-8 encoding, a \<^typ>\<open>string\<close>
  (a list of 8-bit characters); \<^verbatim>\<open>bytes\<close> is a list of 8-bit characters as well.
  A \<^verbatim>\<open>str\<close> holding a lone surrogate has no UTF-8 encoding and is outside the model.
\<close>

type_synonym bytes = string

text \<open>
  The JSON-like values that LangChain passes to a callback in \<^verbatim>\<open>serialized\<close>
  (type \<^verbatim>\<open>Dict[str, Any]\<close>). A dict is an association list in insertion order,
  looked up with \<^const>\<open>map_of\<close>.
\<close>

datatype pyval =
    PNone
  | PBool bool
  | PInt int
  | PStr string
  | PList "pyval list"
  | PDict "(string \<times> pyval) list"

text \<open>
  Exceptions. Every class below derives from \<^verbatim>\<open>Exception\<close>, except
  \<open>BaseException_other\<close>, which stands for the classes that derive from
  \<^verbatim>\<open>BaseException\<close> only (\<^verbatim>\<open>KeyboardInterrupt\<close>, \<^verbatim>\<open>SystemExit\<close>,
  \<^verbatim>\<open>GeneratorExit\<close>); its argument is the class name. \<open>Exception_other\<close> is any
  other \<^verbatim>\<open>Exception\<close> subclass raised by a collaborator (a not-found error, a
  decryption error, a transient I/O fault), with its class name.
  \<open>AttributeError t a\<close>: an object of type \<open>t\<close> has no attribute \<open>a\<close>.
\<close>

datatype exn =
    ValueError string
  | ImportError string
  | AttributeError string string
  | TypeError string
  | KeyError pyval
  | IndexError
  | UnicodeDecodeError
  | Exception_other string
  | BaseException_other string

fun is_Exception :: "exn \<Rightarrow> bool" where
  "is_Exception (BaseException_other c) = False"
| "is_Exception e = True"

text \<open>Truth value testing (\<^verbatim>\<open>bool(v)\<close>, \<^verbatim>\<open>if v\<close>, \<^verbatim>\<open>not v\<close>, \<^verbatim>\<open>v or d\<close>).\<close>

fun truthy :: "pyval \<Rightarrow> bool" where
  "truthy PNone = False"
| "truthy (PBool b) = b"
| "truthy (PInt i) = (i \<noteq> 0)"
| "truthy (PStr s) = (s \<noteq> [])"
| "truthy (PList xs) = (xs \<noteq> [])"
| "truthy (PDict d) = (d \<noteq> [])"

text \<open>Truth value of an \<^verbatim>\<open>Optional[str]\<close>: \<^verbatim>\<open>None\<close> and \<^verbatim>\<open>""\<close> are false.\<close>

fun truthy_str :: "string option \<Rightarrow> bool" where
  "truthy_str None = False"
| "truthy_str (Some s) = (s \<noteq> [])"

fun type_name :: "pyval \<Rightarrow> string" where
  "type_name PNone = ''NoneType''"
| "type_name (PBool b) = ''bool''"
| "type_name (PInt i) = ''int''"
| "type_name (PStr s) = ''str''"
| "type_name (PList xs) = ''list''"
| "type_name (PDict d) = ''dict''"

text \<open>
  \<^verbatim>\<open>str.lower()\<close> is the case mapping of the runtime over all of Unicode, a table
  that the repository does not define. The functions that call it take it as their
  first argument \<open>str_lower\<close>, and what is proved of them holds for every function
  in its place. On a \<^verbatim>\<open>str\<close> of ASCII characters \<^verbatim>\<open>str.lower()\<close> maps the
  letters \<^verbatim>\<open>A\<close> to \<^verbatim>\<open>Z\<close> to \<^verbatim>\<open>a\<close> to \<^verbatim>\<open>z\<close> and leaves the other
  characters; \<open>ascii_lower\<close> is that mapping, and the examples below, whose names are
  all ASCII, are run with it.
\<close>

definition ascii_lower_char :: "char \<Rightarrow> char" where
  "ascii_lower_char c =
     (if 65 \<le> (of_char c :: nat) \<and> (of_char c :: nat) \<le> 90
      then char_of (of_char c + (32 :: nat)) else c)"

definition ascii_lower :: "string \<Rightarrow> string" where
  "ascii_lower s = map ascii_lower_char s"

subsection \<open>UTF-8\<close>

text \<open>
  \<^verbatim>\<open>bytes.decode()\<close> is the strict UTF-8 decoder: it raises
  \<^verbatim>\<open>UnicodeDecodeError\<close> unless the bytes are well-formed UTF-8 (no overlong form,
  no surrogate, nothing above U+10FFFF). \<^verbatim>\<open>str.encode()\<close> gives the UTF-8 bytes,
  which represent the \<^verbatim>\<open>str\<close> here.
\<close>

definition cont :: "nat \<Rightarrow> bool" where
  "cont b = (128 \<le> b \<and> b \<le> 191)"

fun utf8_valid :: "nat list \<Rightarrow> bool" where
  "utf8_valid [] = True"
| "utf8_valid (b0 # bs) =
     (if b0 < 128 then utf8_valid bs
      else if 194 \<le> b0 \<and> b0 \<le> 223 then
        (case bs of b1 # r \<Rightarrow> cont b1 \<and> utf8_valid r | _ \<Rightarrow> False)
      else if 224 \<le> b0 \<and> b0 \<le> 239 then
        (case bs of b1 # b2 # r \<Rightarrow>
           (if b0 = 224 then 160 \<le> b1 \<and> b1 \<le> 191
            else if b0 = 237 then 128 \<le> b1 \<and> b1 \<le> 159
            else cont b1) \<and> cont b2 \<and> utf8_valid r
         | _ \<Rightarrow> False)
      else if 240 \<le> b0 \<and> b0 \<le> 244 then
        (case bs of b1 # b2 # b3 # r \<Rightarrow>
           (if b0 = 240 then 144 \<le> b1 \<and> b1 \<le> 191
            else if b0 = 244 then 128 \<le> b1 \<and> b1 \<le> 143
            else cont b1) \<and> cont b2 \<and> cont b3 \<and> utf8_valid r
         | _ \<Rightarrow> False)
      else False)"

definition is_str :: "string \<Rightarrow> bool" where
  "is_str s = utf8_valid (map of_char s)"

definition encode :: "string \<Rightarrow> bytes" where
  "encode s = s"

definition decode :: "bytes \<Rightarrow> exn + string" where
  "decode bs = (if is_str bs then Inr bs else Inl UnicodeDecodeError)"

section \<open>credential\_provider.py\<close>

subsection \<open>The vault client\<close>

text \<open>
  \<^verbatim>\<open>AVPClient\<close> belongs to the package \<^verbatim>\<open>avp\<close>, which the repository calls and
  does not define. It is a parameter of the model: a client whose state has type \<open>'b\<close>
  is given by its methods, each of which returns normally or raises, and leaves a new
  state. The methods take the session id held by the provider
  (\<^verbatim>\<open>Optional[str]\<close>).
  \<^item> \<open>client_authenticate b workspace\<close>: the session id;
  \<^item> \<open>client_retrieve b session name\<close>: the attribute \<^verbatim>\<open>value\<close> of the result;
  \<^item> \<open>client_store b session name value labels\<close>;
  \<^item> \<open>client_delete b session name\<close>: the attribute \<^verbatim>\<open>deleted\<close> of the result;
  \<^item> \<open>client_close b\<close>.
\<close>

record 'b AVPClient =
  client_authenticate :: "'b \<Rightarrow> string \<Rightarrow> (exn + string) \<times> 'b"
  client_retrieve :: "'b \<Rightarrow> string option \<Rightarrow> string \<Rightarrow> (exn + bytes) \<times> 'b"
  client_store ::
    "'b \<Rightarrow> string option \<Rightarrow> string \<Rightarrow> bytes \<Rightarrow> (string \<times> string) list option
       \<Rightarrow> (exn + unit) \<times> 'b"
  client_delete :: "'b \<Rightarrow> string option \<Rightarrow> string \<Rightarrow> (exn + bool) \<times> 'b"
  client_close :: "'b \<Rightarrow> (exn + unit) \<times> 'b"

subsection \<open>AVPCredentialProvider\<close>

text \<open>
  The fields \<^verbatim>\<open>_workspace\<close>, \<^verbatim>\<open>_client\<close> and \<^verbatim>\<open>_session_id\<close>. The client
  object is represented by its state; an \<^verbatim>\<open>AVPClient\<close> instance is taken to be
  true in a truth test, as an object without \<^verbatim>\<open>__bool__\<close> and \<^verbatim>\<open>__len__\<close> is.
\<close>

record 'b provider =
  workspace :: string
  client :: "'b option"
  session_id :: "string option"

text \<open>
  \<^verbatim>\<open>__init__\<close> with its backend chosen, followed by \<^verbatim>\<open>_connect\<close>: the client
  is created on the backend and authenticated for the workspace.
\<close>

definition connect :: "'b AVPClient \<Rightarrow> 'b \<Rightarrow> string \<Rightarrow> exn + 'b provider" where
  "connect ops backend ws =
     (case client_authenticate ops backend ws of
        (Inl e, b) \<Rightarrow> Inl e
      | (Inr sid, b) \<Rightarrow>
          Inr \<lparr>workspace = ws, client = Some b, session_id = Some sid\<rparr>)"

text \<open>
  \<^verbatim>\<open>get(name, default=None)\<close>. Inside \<^verbatim>\<open>try\<close>: the call of \<^verbatim>\<open>retrieve\<close>
  (an \<^verbatim>\<open>AttributeError\<close> when \<^verbatim>\<open>_client\<close> is \<^verbatim>\<open>None\<close>) and the decoding of
  the value. \<^verbatim>\<open>except Exception\<close> catches the instances of \<^verbatim>\<open>Exception\<close> and
  lets every other exception through.
\<close>

definition get ::
  "'b AVPClient \<Rightarrow> 'b provider \<Rightarrow> string \<Rightarrow> string option
     \<Rightarrow> (exn + string option) \<times> 'b provider" where
  "get ops p name dflt =
     (case client p of
        None \<Rightarrow> (Inr dflt, p)
      | Some b \<Rightarrow>
          (case client_retrieve ops b (session_id p) name of
             (Inl e, b') \<Rightarrow>
               (if is_Exception e then Inr dflt else Inl e, p\<lparr>client := Some b'\<rparr>)
           | (Inr v, b') \<Rightarrow>
               (case decode v of
                  Inl e \<Rightarrow> (Inr dflt, p\<lparr>client := Some b'\<rparr>)
                | Inr s \<Rightarrow> (Inr (Some s), p\<lparr>client := Some b'\<rparr>))))"

text \<open>
  \<^verbatim>\<open>set(name, value, labels=None)\<close>, named \<open>set_credential\<close> here since
  \<open>set\<close> is the set of the items of a list. Nothing is caught.
\<close>

definition set_credential ::
  "'b AVPClient \<Rightarrow> 'b provider \<Rightarrow> string \<Rightarrow> string \<Rightarrow> (string \<times> string) list option
     \<Rightarrow> (exn + unit) \<times> 'b provider" where
  "set_credential ops p name val labels =
     (case client p of
        None \<Rightarrow> (Inl (AttributeError ''NoneType'' ''store''), p)
      | Some b \<Rightarrow>
          (case client_store ops b (session_id p) name (encode val) labels of
             (r, b') \<Rightarrow> (r, p\<lparr>client := Some b'\<rparr>)))"

text \<open>\<^verbatim>\<open>delete(name)\<close>: returns \<^verbatim>\<open>result.deleted\<close>.\<close>

definition delete ::
  "'b AVPClient \<Rightarrow> 'b provider \<Rightarrow> string \<Rightarrow> (exn + bool) \<times> 'b provider" where
  "delete ops p name =
     (case client p of
        None \<Rightarrow> (Inl (AttributeError ''NoneType'' ''delete''), p)
      | Some b \<Rightarrow>
          (case client_delete ops b (session_id p) name of
             (r, b') \<Rightarrow> (r, p\<lparr>client := Some b'\<rparr>)))"

text \<open>
  \<^verbatim>\<open>get_api_key(provider)\<close>. \<open>key_mapping\<close> is the dict literal of the method and
  \<open>credential_name\<close> its local variable:
  \<^verbatim>\<open>key_mapping.get(provider.lower(), f"{provider.lower()}_api_key")\<close>.
\<close>

definition key_mapping :: "(string \<times> string) list" where
  "key_mapping =
     [(''anthropic'', ''anthropic_api_key''),
      (''openai'', ''openai_api_key''),
      (''cohere'', ''cohere_api_key''),
      (''huggingface'', ''huggingface_api_key''),
      (''google'', ''google_api_key''),
      (''mistral'', ''mistral_api_key'')]"

definition credential_name :: "(string \<Rightarrow> string) \<Rightarrow> string \<Rightarrow> string" where
  "credential_name str_lower provider =
     (case map_of key_mapping (str_lower provider) of
        Some k \<Rightarrow> k
      | None \<Rightarrow> str_lower provider @ ''_api_key'')"

definition get_api_key ::
  "(string \<Rightarrow> string) \<Rightarrow> 'b AVPClient \<Rightarrow> 'b provider \<Rightarrow> string
     \<Rightarrow> (exn + string option) \<times> 'b provider" where
  "get_api_key str_lower ops p provider =
     get ops p (credential_name str_lower provider) None"

text \<open>\<^verbatim>\<open>close()\<close>: \<^verbatim>\<open>if self._client: self._client.close()\<close>.\<close>

definition close :: "'b AVPClient \<Rightarrow> 'b provider \<Rightarrow> (exn + unit) \<times> 'b provider" where
  "close ops p =
     (case client p of
        None \<Rightarrow> (Inr (), p)
      | Some b \<Rightarrow>
          (case client_close ops b of (r, b') \<Rightarrow> (r, p\<lparr>client := Some b'\<rparr>)))"




section \<open>utils.py\<close>

text \<open>
  The client constructors (\<^verbatim>\<open>ChatAnthropic\<close>, \<^verbatim>\<open>ChatOpenAI\<close>,
  \<^verbatim>\<open>ChatCohere\<close>, \<^verbatim>\<open>ChatMistralAI\<close>) belong to packages that the repository
  imports inside the function and does not define. A call of a constructor is represented
  by the value \<open>LLM cls args\<close>: the class and the keyword arguments of the call, in
  order. What the constructor does with them is not part of the model.
\<close>

datatype llm = LLM string "(string \<times> pyval) list"

text \<open>\<^verbatim>\<open>model or d\<close> for \<^verbatim>\<open>model: Optional[str]\<close>.\<close>

definition or_default :: "string option \<Rightarrow> string \<Rightarrow> string" where
  "or_default model d =
     (case model of None \<Rightarrow> d | Some m \<Rightarrow> if m = [] then d else m)"

text \<open>
  The call \<^verbatim>\<open>cls(key_kw=api_key, model=model, **kwargs)\<close>. A keyword given twice is
  a \<^verbatim>\<open>TypeError\<close> of the call.
\<close>

definition construct ::
  "string \<Rightarrow> string \<Rightarrow> string \<Rightarrow> string \<Rightarrow> (string \<times> pyval) list \<Rightarrow> exn + llm" where
  "construct cls key_kw api_key model kwargs =
     (if key_kw \<in> fst ` set kwargs then
        Inl (TypeError (''got multiple values for keyword argument '' @ key_kw))
      else if ''model'' \<in> fst ` set kwargs then
        Inl (TypeError ''got multiple values for keyword argument model'')
      else Inr (LLM cls ((key_kw, PStr api_key) # (''model'', PStr model) # kwargs)))"

text \<open>
  \<^verbatim>\<open>get_llm_with_avp(provider, credentials, model=None, **kwargs)\<close>.
  \<open>importable m\<close> tells whether the module \<open>m\<close> can be imported, which decides the
  \<^verbatim>\<open>try: from m import cls / except ImportError\<close> of each branch.
  The test \<^verbatim>\<open>if not api_key\<close> is a truth test of an \<^verbatim>\<open>Optional[str]\<close>; after
  it the name \<^verbatim>\<open>provider\<close> is bound to \<^verbatim>\<open>provider.lower()\<close>.
\<close>

definition get_llm_with_avp ::
  "(string \<Rightarrow> string) \<Rightarrow> 'b AVPClient \<Rightarrow> (string \<Rightarrow> bool) \<Rightarrow> string \<Rightarrow> 'b provider
     \<Rightarrow> string option \<Rightarrow> (string \<times> pyval) list \<Rightarrow> (exn + llm) \<times> 'b provider" where
  "get_llm_with_avp str_lower ops importable provider credentials model kwargs =
     (case get_api_key str_lower ops credentials provider of
        (Inl e, c) \<Rightarrow> (Inl e, c)
      | (Inr None, c) \<Rightarrow>
          (Inl (ValueError (''No API key found for provider: '' @ provider)), c)
      | (Inr (Some api_key), c) \<Rightarrow>
          (if api_key = [] then
             Inl (ValueError (''No API key found for provider: '' @ provider))
           else if str_lower provider = ''anthropic'' then
             (if \<not> importable ''langchain_anthropic'' then
                Inl (ImportError
                  ''Install langchain-anthropic: pip install langchain-anthropic'')
              else construct ''ChatAnthropic'' ''api_key'' api_key
                     (or_default model ''claude-3-haiku-20240307'') kwargs)
           else if str_lower provider = ''openai'' then
             (if \<not> importable ''langchain_openai'' then
                Inl (ImportError ''Install langchain-openai: pip install langchain-openai'')
              else construct ''ChatOpenAI'' ''api_key'' api_key
                     (or_default model ''gpt-3.5-turbo'') kwargs)
           else if str_lower provider = ''cohere'' then
             (if \<not> importable ''langchain_cohere'' then
                Inl (ImportError ''Install langchain-cohere: pip install langchain-cohere'')
              else construct ''ChatCohere'' ''cohere_api_key'' api_key
                     (or_default model ''command'') kwargs)
           else if str_lower provider = ''mistral'' then
             (if \<not> importable ''langchain_mistralai'' then
                Inl (ImportError
                  ''Install langchain-mistralai: pip install langchain-mistralai'')
              else construct ''ChatMistralAI'' ''api_key'' api_key
                     (or_default model ''mistral-small-latest'') kwargs)
           else
             Inl (ValueError (''Unknown provider: '' @ str_lower provider
                    @ ''. Supported: anthropic, openai, cohere, mistral'')),
           c))"

section \<open>Clients to run the provider on\<close>

text \<open>
  An in-memory vault client: the secrets of the workspace as a map from names to
  values, and the list of the methods called on the client so far. \<^verbatim>\<open>retrieve\<close>
  raises an \<^verbatim>\<open>Exception\<close> subclass for a name that is not stored.
\<close>

record vault =
  secrets :: "string \<rightharpoonup> bytes"
  calls :: "string list"

definition empty_vault :: vault where
  "empty_vault = \<lparr>secrets = Map.empty, calls = []\<rparr>"

definition vault_with :: "string \<Rightarrow> bytes \<Rightarrow> vault" where
  "vault_with name v = \<lparr>secrets = [name \<mapsto> v], calls = []\<rparr>"

definition memory_client :: "vault AVPClient" where
  "memory_client =
     \<lparr>client_authenticate = (\<lambda>b ws.
        (Inr (''session-'' @ ws), b\<lparr>calls := calls b @ [''authenticate'']\<rparr>)),
      client_retrieve = (\<lambda>b sid name.
        (case secrets b name of
           None \<Rightarrow> Inl (Exception_other ''SecretNotFoundError'')
         | Some v \<Rightarrow> Inr v,
         b\<lparr>calls := calls b @ [''retrieve'']\<rparr>)),
      client_store = (\<lambda>b sid name v labels.
        (Inr (), b\<lparr>secrets := (secrets b)(name \<mapsto> v), calls := calls b @ [''store'']\<rparr>)),
      client_delete = (\<lambda>b sid name.
        (Inr (secrets b name \<noteq> None),
         b\<lparr>secrets := (secrets b)(name := None), calls := calls b @ [''delete'']\<rparr>)),
      client_close = (\<lambda>b. (Inr (), b\<lparr>calls := calls b @ [''close'']\<rparr>))\<rparr>"

text \<open>
  The same client, except that \<^verbatim>\<open>retrieve\<close> is interrupted: it raises
  \<^verbatim>\<open>KeyboardInterrupt\<close>, which is not an instance of \<^verbatim>\<open>Exception\<close>.
\<close>

definition interrupted_client :: "vault AVPClient" where
  "interrupted_client =
     memory_client\<lparr>client_retrieve := (\<lambda>b sid name.
        (Inl (BaseException_other ''KeyboardInterrupt''),
         b\<lparr>calls := calls b @ [''retrieve'']\<rparr>))\<rparr>"

text \<open>A provider connected to a vault, as \<^verbatim>\<open>connect\<close> leaves it.\<close>

definition provider_on :: "vault \<Rightarrow> vault provider" where
  "provider_on b =
     \<lparr>workspace = ''langchain'', client = Some b, session_id = Some ''session-langchain''\<rparr>"



section \<open>callbacks.py\<close>

subsection \<open>Operations of the language on values\<close>

text \<open>\<^verbatim>\<open>d.get(k, dflt)\<close> on a dict.\<close>

definition dict_get :: "(string \<times> pyval) list \<Rightarrow> string \<Rightarrow> pyval \<Rightarrow> pyval" where
  "dict_get d k dflt = (case map_of d k of None \<Rightarrow> dflt | Some v \<Rightarrow> v)"

text \<open>
  \<^verbatim>\<open>v.get(k, dflt)\<close> on any value: only a dict has the method, every other value
  raises \<^verbatim>\<open>AttributeError\<close>.
\<close>

fun py_get :: "pyval \<Rightarrow> string \<Rightarrow> pyval \<Rightarrow> exn + pyval" where
  "py_get (PDict d) k dflt = Inr (dict_get d k dflt)"
| "py_get v k dflt = Inl (AttributeError (type_name v) ''get'')"

text \<open>The last character of a \<^verbatim>\<open>str\<close>: its last UTF-8 sequence.\<close>

definition utf8_last :: "string \<Rightarrow> string" where
  "utf8_last s =
     (let r = rev s; n = length (takeWhile (\<lambda>c. cont (of_char c)) r)
      in rev (take (Suc n) r))"

text \<open>
  \<^verbatim>\<open>v[-1]\<close>: the last item of a list, the last character of a \<^verbatim>\<open>str\<close>, the
  item under the key \<^verbatim>\<open>-1\<close> of a dict (its keys are strings here, so there is
  none); the other values are not subscriptable.
\<close>

fun subscript_last :: "pyval \<Rightarrow> exn + pyval" where
  "subscript_last (PList xs) = (if xs = [] then Inl IndexError else Inr (last xs))"
| "subscript_last (PStr s) = (if s = [] then Inl IndexError else Inr (PStr (utf8_last s)))"
| "subscript_last (PDict d) = Inl (KeyError (PInt (- 1)))"
| "subscript_last v =
     Inl (TypeError (CHR 0x27 # type_name v @ CHR 0x27 # '' object is not subscriptable''))"

subsection \<open>Objects\<close>

text \<open>
  The audit log is a list object that holds references to dict objects, the entries; the
  claims about copies depend on which objects are shared, so lists and entries live in a
  store. An address is an index into the store, and a new object is put at its end.
  The value of \<^verbatim>\<open>"metadata"\<close> in an entry is kept inside the entry, as a value.
\<close>

type_synonym addr = nat

datatype obj = ListObj "addr list" | DictObj "(string \<times> pyval) list"

type_synonym heap = "obj list"

definition lookup :: "heap \<Rightarrow> addr \<Rightarrow> obj option" where
  "lookup h a = (if a < length h then Some (h ! a) else None)"

definition alloc :: "heap \<Rightarrow> obj \<Rightarrow> addr \<times> heap" where
  "alloc h x = (length h, h @ [x])"

text \<open>What a reader of the list at \<open>a\<close> sees: the content of each entry, in order.\<close>

definition deref_entry :: "heap \<Rightarrow> addr \<Rightarrow> (string \<times> pyval) list option" where
  "deref_entry h e = (case lookup h e of Some (DictObj d) \<Rightarrow> Some d | _ \<Rightarrow> None)"

definition read_log :: "heap \<Rightarrow> addr \<Rightarrow> (string \<times> pyval) list option list option" where
  "read_log h a =
     (case lookup h a of Some (ListObj xs) \<Rightarrow> Some (map (deref_entry h) xs) | _ \<Rightarrow> None)"

subsection \<open>AVPCredentialCallback\<close>

text \<open>
  The fields \<^verbatim>\<open>_audit_log\<close> (a reference to a list) and \<^verbatim>\<open>_current_run\<close>. The
  field \<^verbatim>\<open>credential_provider\<close> is stored by \<^verbatim>\<open>__init__\<close> and never read.
\<close>

record callback =
  audit_log :: addr
  current_run :: "string option"

definition callback_init :: "heap \<Rightarrow> heap \<times> callback" where
  "callback_init h =
     (case alloc h (ListObj []) of
        (a, h') \<Rightarrow> (h', \<lparr>audit_log = a, current_run = None\<rparr>))"

text \<open>
  \<^verbatim>\<open>_log(event, metadata=None)\<close>, named \<open>log_event\<close> here; \<open>now\<close> is the value of
  \<^verbatim>\<open>datetime.utcnow().isoformat()\<close> at the call. The entry is a new dict
  (\<open>make_entry\<close>: the dict literal, and the key \<^verbatim>\<open>"metadata"\<close> when the metadata
  are true); the list that \<^verbatim>\<open>_audit_log\<close> refers to is extended in place.
\<close>

definition make_entry ::
  "callback \<Rightarrow> string \<Rightarrow> string \<Rightarrow> (string \<times> pyval) list option
     \<Rightarrow> (string \<times> pyval) list" where
  "make_entry cb now event metadata =
     [(''timestamp'', PStr now),
      (''event'', PStr event),
      (''run_id'', case current_run cb of None \<Rightarrow> PNone | Some r \<Rightarrow> PStr r)]
     @ (case metadata of
          None \<Rightarrow> []
        | Some md \<Rightarrow> if md = [] then [] else [(''metadata'', PDict md)])"

definition log_event ::
  "heap \<Rightarrow> callback \<Rightarrow> string \<Rightarrow> string \<Rightarrow> (string \<times> pyval) list option
     \<Rightarrow> (exn + unit) \<times> heap \<times> callback" where
  "log_event h cb now event metadata =
     (case alloc h (DictObj (make_entry cb now event metadata)) of
        (e, h1) \<Rightarrow>
          (case lookup h1 (audit_log cb) of
             Some (ListObj xs) \<Rightarrow> (Inr (), h1[audit_log cb := ListObj (xs @ [e])], cb)
           | _ \<Rightarrow> (Inl (AttributeError ''object'' ''append''), h1, cb)))"

text \<open>\<^verbatim>\<open>on_llm_start(serialized, prompts, *, run_id=None)\<close>.\<close>

definition on_llm_start ::
  "heap \<Rightarrow> callback \<Rightarrow> string \<Rightarrow> (string \<times> pyval) list \<Rightarrow> string list \<Rightarrow> string option
     \<Rightarrow> (exn + unit) \<times> heap \<times> callback" where
  "on_llm_start h cb now serialized prompts run_id =
     (let cb1 = cb\<lparr>current_run := (if truthy_str run_id then run_id else None)\<rparr> in
      case py_get (dict_get serialized ''kwargs'' (PDict [])) ''model'' (PStr ''unknown'') of
        Inl e \<Rightarrow> (Inl e, h, cb1)
      | Inr model \<Rightarrow>
          (case (if truthy (dict_get serialized ''id'' PNone)
                 then subscript_last (dict_get serialized ''id'' (PList [PStr ''unknown'']))
                 else Inr (PStr ''unknown'')) of
             Inl e \<Rightarrow> (Inl e, h, cb1)
           | Inr provider \<Rightarrow>
               log_event h cb1 now ''llm_start''
                 (Some [(''provider'', provider),
                        (''model'', model),
                        (''prompt_count'', PInt (int (length prompts)))])))"

text \<open>
  \<^verbatim>\<open>on_llm_end(response)\<close>, with the two attributes of \<^verbatim>\<open>LLMResult\<close> that are
  read: \<^verbatim>\<open>generations\<close> (a list) and \<^verbatim>\<open>llm_output\<close> (\<^verbatim>\<open>Optional[dict]\<close>).
\<close>

record LLMResult =
  generations :: "pyval list"
  llm_output :: "(string \<times> pyval) list option"

definition on_llm_end ::
  "heap \<Rightarrow> callback \<Rightarrow> string \<Rightarrow> LLMResult \<Rightarrow> (exn + unit) \<times> heap \<times> callback" where
  "on_llm_end h cb now response =
     (let token_usage =
            (case llm_output response of
               None \<Rightarrow> PDict []
             | Some out \<Rightarrow>
                 if out = [] then PDict [] else dict_get out ''token_usage'' (PDict []))
      in case log_event h cb now ''llm_end''
                (Some [(''generations'', PInt (int (length (generations response)))),
                       (''token_usage'', token_usage)]) of
           (Inl e, h1, cb1) \<Rightarrow> (Inl e, h1, cb1)
         | (Inr u, h1, cb1) \<Rightarrow> (Inr (), h1, cb1\<lparr>current_run := None\<rparr>))"

text \<open>
  \<^verbatim>\<open>on_llm_error(error)\<close>; an error is given by \<^verbatim>\<open>type(error).__name__\<close> and
  \<^verbatim>\<open>str(error)\<close>.
\<close>

record error =
  error_type :: string
  error_text :: string

definition on_llm_error ::
  "heap \<Rightarrow> callback \<Rightarrow> string \<Rightarrow> error \<Rightarrow> (exn + unit) \<times> heap \<times> callback" where
  "on_llm_error h cb now err =
     (case log_event h cb now ''llm_error''
             (Some [(''error'', PStr (error_text err)),
                    (''error_type'', PStr (error_type err))]) of
        (Inl e, h1, cb1) \<Rightarrow> (Inl e, h1, cb1)
      | (Inr u, h1, cb1) \<Rightarrow> (Inr (), h1, cb1\<lparr>current_run := None\<rparr>))"

text \<open>\<^verbatim>\<open>get_audit_log()\<close>: \<^verbatim>\<open>list.copy()\<close> makes a new list of the same references.\<close>

definition get_audit_log :: "heap \<Rightarrow> callback \<Rightarrow> (exn + addr) \<times> heap" where
  "get_audit_log h cb =
     (case lookup h (audit_log cb) of
        Some (ListObj xs) \<Rightarrow> (case alloc h (ListObj xs) of (a, h1) \<Rightarrow> (Inr a, h1))
      | _ \<Rightarrow> (Inl (AttributeError ''object'' ''copy''), h))"

text \<open>\<^verbatim>\<open>clear_audit_log()\<close>: the field is bound to a new empty list.\<close>

definition clear_audit_log :: "heap \<Rightarrow> callback \<Rightarrow> heap \<times> callback" where
  "clear_audit_log h cb =
     (case alloc h (ListObj []) of (a, h1) \<Rightarrow> (h1, cb\<lparr>audit_log := a\<rparr>))"

text \<open>What a caller of \<^verbatim>\<open>get_audit_log()\<close> reads in the list it gets.\<close>

definition snapshot :: "heap \<Rightarrow> callback \<Rightarrow> (string \<times> pyval) list option list option" where
  "snapshot h cb =
     (case get_audit_log h cb of
        (Inr a, h1) \<Rightarrow> read_log h1 a
      | (Inl e, h1) \<Rightarrow> None)"

text \<open>The time stamp and the event kind of each entry that a caller reads, in order.\<close>

type_synonym stamp = "pyval option \<times> pyval option"

definition stamp :: "(string \<times> pyval) list option \<Rightarrow> stamp" where
  "stamp e =
     (case e of None \<Rightarrow> (None, None)
      | Some d \<Rightarrow> (map_of d ''timestamp'', map_of d ''event''))"

definition log_stamps :: "heap \<Rightarrow> callback \<Rightarrow> stamp list" where
  "log_stamps h cb = (case snapshot h cb of None \<Rightarrow> [] | Some es \<Rightarrow> map stamp es)"

text \<open>
  The state a callback is in between calls: \<^verbatim>\<open>_audit_log\<close> refers to a list, and
  each item of the list refers to a dict.
\<close>

definition is_entry :: "heap \<Rightarrow> addr \<Rightarrow> bool" where
  "is_entry h e = (case lookup h e of Some (DictObj d) \<Rightarrow> True | _ \<Rightarrow> False)"

definition wf :: "heap \<Rightarrow> callback \<Rightarrow> bool" where
  "wf h cb =
     (case lookup h (audit_log cb) of
        Some (ListObj xs) \<Rightarrow> list_all (is_entry h) xs
      | _ \<Rightarrow> False)"

text \<open>
  A later store keeps the dicts of an earlier one: every dict of the earlier store is at
  the same address, with the same content.
\<close>

definition keeps_dicts :: "heap \<Rightarrow> heap \<Rightarrow> bool" where
  "keeps_dicts h h' = (\<forall>a d. lookup h a = Some (DictObj d) \<longrightarrow> lookup h' a = Some (DictObj d))"

subsection \<open>Sequences of calls\<close>

text \<open>The calls of the class that touch the log, the handlers with the clock reading.\<close>

datatype call =
    OnLlmStart string "(string \<times> pyval) list" "string list" "string option"
  | OnLlmEnd string LLMResult
  | OnLlmError string error
  | GetAuditLog
  | ClearAuditLog

fun exec :: "heap \<Rightarrow> callback \<Rightarrow> call \<Rightarrow> (exn + unit) \<times> heap \<times> callback" where
  "exec h cb (OnLlmStart now serialized prompts run_id) =
     on_llm_start h cb now serialized prompts run_id"
| "exec h cb (OnLlmEnd now response) = on_llm_end h cb now response"
| "exec h cb (OnLlmError now err) = on_llm_error h cb now err"
| "exec h cb GetAuditLog =
     (case get_audit_log h cb of
        (Inl e, h1) \<Rightarrow> (Inl e, h1, cb)
      | (Inr a, h1) \<Rightarrow> (Inr (), h1, cb))"
| "exec h cb ClearAuditLog =
     (case clear_audit_log h cb of (h1, cb1) \<Rightarrow> (Inr (), h1, cb1))"

text \<open>
  The calls are made one after the other; a call that raises does not stop the next one
  (the exception goes to the caller of the handler). The outcome of each call is kept.
\<close>

fun run :: "heap \<Rightarrow> callback \<Rightarrow> call list \<Rightarrow> (exn + unit) list \<times> heap \<times> callback" where
  "run h cb [] = ([], h, cb)"
| "run h cb (c # cs) =
     (case exec h cb c of
        (r, h1, cb1) \<Rightarrow>
          (case run h1 cb1 cs of (rs, h2, cb2) \<Rightarrow> (r # rs, h2, cb2)))"





text \<open>A value of \<^verbatim>\<open>serialized\<close> as LangChain sends it for a chat model.\<close>

definition demo_serialized :: "(string \<times> pyval) list" where
  "demo_serialized =
     [(''id'', PList [PStr ''langchain'', PStr ''ChatAnthropic'']),
      (''kwargs'', PDict [(''model'', PStr ''claude-3-haiku-20240307'')])]"

text \<open>
  What \<^verbatim>\<open>on_llm_start\<close> records as model and as provider when it records: the
  value under \<^verbatim>\<open>"model"\<close> in the dict under \<^verbatim>\<open>"kwargs"\<close>, and the last item
  of the value under \<^verbatim>\<open>"id"\<close>; \<^verbatim>\<open>"unknown"\<close> where there is none.
\<close>

definition start_model :: "(string \<times> pyval) list \<Rightarrow> pyval" where
  "start_model serialized =
     (case map_of serialized ''kwargs'' of
        Some (PDict kw) \<Rightarrow>
          (case map_of kw ''model'' of None \<Rightarrow> PStr ''unknown'' | Some m \<Rightarrow> m)
      | _ \<Rightarrow> PStr ''unknown'')"

definition start_provider :: "(string \<times> pyval) list \<Rightarrow> pyval" where
  "start_provider serialized =
     (case map_of serialized ''id'' of
        Some (PList xs) \<Rightarrow> if xs = [] then PStr ''unknown'' else last xs
      | Some (PStr s) \<Rightarrow> if s = [] then PStr ''unknown'' else PStr (utf8_last s)
      | _ \<Rightarrow> PStr ''unknown'')"

section \<open>Properties of the provider and of the client factory\<close>

subsection \<open>Helper facts\<close>

lemma lower_unknown: "ascii_lower ''unknown-provider'' = ''unknown-provider''"
  by code_simp

lemma lower_OpenAI: "ascii_lower ''OpenAI'' = ''openai''"
  by code_simp

lemma lower_Groq: "ascii_lower ''Groq'' = ''groq''"
  by code_simp

lemma lower_anthropic: "ascii_lower ''anthropic'' = ''anthropic''"
  by code_simp

lemma credential_name_eq: "credential_name str_lower provider = str_lower provider @ ''_api_key''"
  by (auto simp: credential_name_def key_mapping_def split: option.splits if_splits)

lemma get_state:
  "client p = Some b \<Longrightarrow>
   snd (get ops p name dflt)
     = p\<lparr>client := Some (snd (client_retrieve ops b (session_id p) name))\<rparr>"
  by (auto simp: get_def split: prod.splits sum.splits)

lemma in_table:
  "str_lower provider \<in> set (map fst key_mapping)
     \<Longrightarrow> map_of key_mapping (str_lower provider) = Some (credential_name str_lower provider)"
  by (auto simp: credential_name_def key_mapping_def)

lemma not_in_table:
  "str_lower provider \<notin> set (map fst key_mapping)
     \<Longrightarrow> map_of key_mapping (str_lower provider) = None"
  by (auto simp: key_mapping_def)

subsection \<open>Resolution of the credential name\<close>

text \<open>
  Claim C4. The key computation of \<^verbatim>\<open>get_api_key\<close> is a total function of the
  provider name without any effect. Whatever function \<^verbatim>\<open>str.lower()\<close> is, for
  every provider name the credential name is \<^verbatim>\<open>provider.lower()\<close> followed by
  \<^verbatim>\<open>_api_key\<close>; for a name whose lower-case form is in the table (anthropic,
  openai, cohere, huggingface, google, mistral) this is the entry of the table, and for
  every other name the table has no entry and the name is synthesised. The only effect
  of \<^verbatim>\<open>get_api_key\<close> on the provider is the one call of \<^verbatim>\<open>retrieve\<close> under
  that name.
\<close>

theorem resolve_total:
  "credential_name str_lower provider = str_lower provider @ ''_api_key''
   \<and> (str_lower provider \<in> set (map fst key_mapping)
        \<longrightarrow> map_of key_mapping (str_lower provider) = Some (credential_name str_lower provider))
   \<and> (str_lower provider \<notin> set (map fst key_mapping)
        \<longrightarrow> map_of key_mapping (str_lower provider) = None)
   \<and> (\<forall>b. client p = Some b \<longrightarrow>
         snd (get_api_key str_lower ops p provider)
           = p\<lparr>client := Some (snd (client_retrieve ops b (session_id p)
                                      (str_lower provider @ ''_api_key'')))\<rparr>)"
  using in_table [of str_lower provider] not_in_table [of str_lower provider]
  by (simp add: credential_name_eq get_api_key_def get_state)

theorem resolve_total_witness:
  "ascii_lower ''OpenAI'' \<in> set (map fst key_mapping)
   \<and> credential_name ascii_lower ''OpenAI'' = ''openai_api_key''
   \<and> map_of key_mapping (ascii_lower ''OpenAI'') = Some ''openai_api_key''
   \<and> ascii_lower ''Groq'' \<notin> set (map fst key_mapping)
   \<and> credential_name ascii_lower ''Groq'' = ''groq_api_key''
   \<and> map_of key_mapping (ascii_lower ''Groq'') = None"
proof -
  have a: "ascii_lower ''OpenAI'' \<in> set (map fst key_mapping)"
    by (simp add: lower_OpenAI key_mapping_def)
  have b: "ascii_lower ''Groq'' \<notin> set (map fst key_mapping)"
    by (simp add: lower_Groq key_mapping_def)
  have t1: "credential_name ascii_lower ''OpenAI'' = ascii_lower ''OpenAI'' @ ''_api_key''
      \<and> map_of key_mapping (ascii_lower ''OpenAI'') = Some (credential_name ascii_lower ''OpenAI'')"
    using resolve_total [where str_lower = ascii_lower and provider = "''OpenAI''"
        and p = "provider_on empty_vault" and ops = memory_client] a
    by blast
  have t2: "credential_name ascii_lower ''Groq'' = ascii_lower ''Groq'' @ ''_api_key''
      \<and> map_of key_mapping (ascii_lower ''Groq'') = None"
    using resolve_total [where str_lower = ascii_lower and provider = "''Groq''"
        and p = "provider_on empty_vault" and ops = memory_client] b
    by blast
  show ?thesis
    using a b t1 t2 by (simp add: lower_OpenAI lower_Groq)
qed

lemma llm_state:
  "snd (get_llm_with_avp str_lower ops imp provider c model kwargs) = snd (get_api_key str_lower ops c provider)"
  unfolding get_llm_with_avp_def
  by (simp split: prod.split sum.split option.split split del: if_split)

lemma llm_missing:
  "fst (get_api_key str_lower ops c provider) = Inr None
     \<or> fst (get_api_key str_lower ops c provider) = Inr (Some []) \<Longrightarrow>
   fst (get_llm_with_avp str_lower ops imp provider c model kwargs)
     = Inl (ValueError (''No API key found for provider: '' @ provider))"
  unfolding get_llm_with_avp_def
  by (cases "get_api_key str_lower ops c provider") (auto split del: if_split)

lemma llm_unknown:
  "fst (get_api_key str_lower ops c provider) = Inr (Some k) \<Longrightarrow> k \<noteq> [] \<Longrightarrow>
   str_lower provider \<notin> {''anthropic'', ''openai'', ''cohere'', ''mistral''} \<Longrightarrow>
   fst (get_llm_with_avp str_lower ops imp provider c model kwargs)
     = Inl (ValueError (''Unknown provider: '' @ str_lower provider
              @ ''. Supported: anthropic, openai, cohere, mistral''))"
  unfolding get_llm_with_avp_def
  by (cases "get_api_key str_lower ops c provider") auto

lemma get_cases:
  "client p = Some b \<Longrightarrow> client_retrieve ops b (session_id p) name = (r, b') \<Longrightarrow>
   fst (get ops p name dflt)
     = (case r of
          Inl e \<Rightarrow> if is_Exception e then Inr dflt else Inl e
        | Inr v \<Rightarrow> if is_str v then Inr (Some v) else Inr dflt)"
  by (auto simp: get_def decode_def split: sum.splits)

lemma get_no_client: "client p = None \<Longrightarrow> get ops p name dflt = (Inr dflt, p)"
  by (simp add: get_def)

text \<open>The in-memory client, evaluated.\<close>

lemma mem_retrieve:
  "client_retrieve memory_client b sid name
     = (case secrets b name of None \<Rightarrow> Inl (Exception_other ''SecretNotFoundError'') | Some v \<Rightarrow> Inr v,
        b\<lparr>calls := calls b @ [''retrieve'']\<rparr>)"
  by (simp add: memory_client_def)






lemma provider_on_client [simp]: "client (provider_on b) = Some b"
  by (simp add: provider_on_def)

lemma cn_anthropic: "credential_name ascii_lower ''anthropic'' = ''anthropic_api_key''"
  by (simp add: credential_name_eq lower_anthropic)

lemma cn_unknown: "credential_name ascii_lower ''unknown-provider'' = ''unknown-provider_api_key''"
  by (simp add: credential_name_eq lower_unknown)

lemma empty_get_api_key:
  "fst (get_api_key ascii_lower memory_client (provider_on empty_vault) provider) = Inr None"
  by (simp add: get_api_key_def get_cases [OF provider_on_client mem_retrieve] empty_vault_def)

subsection \<open>The client factory without a credential\<close>

text \<open>
  Claim C2. For every provider name and every provider object, if the resolution of the
  API key yields \<^verbatim>\<open>None\<close>, then \<^verbatim>\<open>get_llm_with_avp\<close> raises the
  \<^verbatim>\<open>ValueError\<close> "No API key found for provider: ..." that names the provider as
  it was given, and it stops there: the vault client has been asked once, by the one
  call of \<^verbatim>\<open>retrieve\<close> under the resolved name, and is left in the state after
  that call.
\<close>

theorem missing_credential:
  "fst (get_api_key str_lower ops c provider) = Inr None \<Longrightarrow>
   get_llm_with_avp str_lower ops imp provider c model kwargs
     = (Inl (ValueError (''No API key found for provider: '' @ provider)),
        snd (get_api_key str_lower ops c provider))
   \<and> (\<forall>b. client c = Some b \<longrightarrow>
         client (snd (get_llm_with_avp str_lower ops imp provider c model kwargs))
           = Some (snd (client_retrieve ops b (session_id c) (credential_name str_lower provider))))"
proof (intro conjI allI impI)
  assume h: "fst (get_api_key str_lower ops c provider) = Inr None"
  show "get_llm_with_avp str_lower ops imp provider c model kwargs
     = (Inl (ValueError (''No API key found for provider: '' @ provider)),
        snd (get_api_key str_lower ops c provider))"
    using llm_missing [of str_lower ops c provider imp model kwargs] h
      llm_state [of str_lower ops imp provider c model kwargs]
    by (metis prod.collapse)
next
  fix b assume "client c = Some b"
  then show "client (snd (get_llm_with_avp str_lower ops imp provider c model kwargs))
           = Some (snd (client_retrieve ops b (session_id c) (credential_name str_lower provider)))"
    by (simp add: llm_state get_api_key_def get_state)
qed

theorem missing_credential_witness:
  "fst (get_api_key ascii_lower memory_client (provider_on empty_vault) ''anthropic'') = Inr None
   \<and> fst (get_llm_with_avp ascii_lower memory_client (\<lambda>m. True) ''anthropic'' (provider_on empty_vault)
            None [])
     = Inl (ValueError ''No API key found for provider: anthropic'')
   \<and> client (snd (get_llm_with_avp ascii_lower memory_client (\<lambda>m. True) ''anthropic''
                     (provider_on empty_vault) None []))
     = Some (empty_vault\<lparr>calls := [''retrieve'']\<rparr>)"
proof -
  have h: "fst (get_api_key ascii_lower memory_client (provider_on empty_vault) ''anthropic'') = Inr None"
    by (rule empty_get_api_key)
  have c: "client (provider_on empty_vault) = Some empty_vault"
    by simp
  have r: "snd (client_retrieve memory_client empty_vault
                  (session_id (provider_on empty_vault)) (credential_name ascii_lower ''anthropic''))
             = empty_vault\<lparr>calls := [''retrieve'']\<rparr>"
    by (simp add: mem_retrieve empty_vault_def)
  note t = missing_credential [OF h, where imp = "\<lambda>m. True" and model = None
      and kwargs = "[]"]
  from t have t1: "fst (get_llm_with_avp ascii_lower memory_client (\<lambda>m. True) ''anthropic''
      (provider_on empty_vault) None [])
       = Inl (ValueError ''No API key found for provider: anthropic'')"
    by simp
  from t c have "client (snd (get_llm_with_avp ascii_lower memory_client (\<lambda>m. True) ''anthropic''
                     (provider_on empty_vault) None []))
     = Some (snd (client_retrieve memory_client empty_vault
                  (session_id (provider_on empty_vault)) (credential_name ascii_lower ''anthropic'')))"
    by blast
  with r h t1 show ?thesis
    by simp
qed

lemma is_str_empty: "is_str []"
  by (simp add: is_str_def)

lemma is_str_sk_test: "is_str ''sk-test''"
  by code_simp

lemma is_str_test_value: "is_str ''test_value''"
  by code_simp

lemma not_is_str_ff: "\<not> is_str [CHR 0xFF]"
  by code_simp

lemma get_api_key_fst:
  "client c = Some b \<Longrightarrow>
   fst (get_api_key str_lower ops c provider)
     = (case fst (client_retrieve ops b (session_id c) (credential_name str_lower provider)) of
          Inl e \<Rightarrow> if is_Exception e then Inr None else Inl e
        | Inr v \<Rightarrow> if is_str v then Inr (Some v) else Inr None)"
  unfolding get_api_key_def
  by (cases "client_retrieve ops b (session_id c) (credential_name str_lower provider)")
     (simp add: get_cases)

lemma vault_with_retrieve:
  "fst (client_retrieve memory_client (vault_with name v) sid name) = Inr v"
  by (simp add: mem_retrieve vault_with_def)

subsection \<open>An empty credential\<close>

text \<open>
  Claim C10, as the code has it. The guard \<^verbatim>\<open>if not api_key\<close> is a truth test, so
  an API key that is stored as the empty string is treated as an absent one: for every
  provider name, supported or not, \<^verbatim>\<open>get_llm_with_avp\<close> raises the error "No API
  key found for provider: ..." and returns no client, so that no constructor is called.
  \<^verbatim>\<open>get_api_key\<close> itself returns \<^verbatim>\<open>None\<close> without raising whenever the
  vault client fails with an instance of \<^verbatim>\<open>Exception\<close> (as it does for a
  credential that is absent), whenever the stored bytes do not decode, and when there is
  no client. When the vault client fails with an exception that is not an instance of
  \<^verbatim>\<open>Exception\<close>, \<^verbatim>\<open>get_api_key\<close> raises it.
\<close>

theorem empty_key_is_missing:
  "(\<forall>b. client c = Some b
        \<and> fst (client_retrieve ops b (session_id c) (credential_name str_lower provider)) = Inr []
      \<longrightarrow> fst (get_llm_with_avp str_lower ops imp provider c model kwargs)
            = Inl (ValueError (''No API key found for provider: '' @ provider))
          \<and> (\<forall>l. fst (get_llm_with_avp str_lower ops imp provider c model kwargs) \<noteq> Inr l))
   \<and> (\<forall>b e. client c = Some b
        \<and> fst (client_retrieve ops b (session_id c) (credential_name str_lower provider)) = Inl e
        \<and> is_Exception e
      \<longrightarrow> fst (get_api_key str_lower ops c provider) = Inr None)
   \<and> (\<forall>b v e. client c = Some b
        \<and> fst (client_retrieve ops b (session_id c) (credential_name str_lower provider)) = Inr v
        \<and> decode v = Inl e
      \<longrightarrow> fst (get_api_key str_lower ops c provider) = Inr None)
   \<and> (client c = None \<longrightarrow> fst (get_api_key str_lower ops c provider) = Inr None)
   \<and> (\<forall>b e. client c = Some b
        \<and> fst (client_retrieve ops b (session_id c) (credential_name str_lower provider)) = Inl e
        \<and> \<not> is_Exception e
      \<longrightarrow> fst (get_api_key str_lower ops c provider) = Inl e)"
proof (intro conjI allI impI)
  fix b
  assume a: "client c = Some b
    \<and> fst (client_retrieve ops b (session_id c) (credential_name str_lower provider)) = Inr []"
  then have "fst (get_api_key str_lower ops c provider) = Inr (Some [])"
    by (simp add: get_api_key_fst is_str_empty)
  then show m: "fst (get_llm_with_avp str_lower ops imp provider c model kwargs)
            = Inl (ValueError (''No API key found for provider: '' @ provider))"
    by (simp add: llm_missing)
  fix l
  from m show "fst (get_llm_with_avp str_lower ops imp provider c model kwargs) \<noteq> Inr l"
    by simp
next
  fix b e
  assume "client c = Some b
    \<and> fst (client_retrieve ops b (session_id c) (credential_name str_lower provider)) = Inl e
    \<and> is_Exception e"
  then show "fst (get_api_key str_lower ops c provider) = Inr None"
    by (simp add: get_api_key_fst)
next
  fix b v e
  assume "client c = Some b
    \<and> fst (client_retrieve ops b (session_id c) (credential_name str_lower provider)) = Inr v
    \<and> decode v = Inl e"
  then show "fst (get_api_key str_lower ops c provider) = Inr None"
    by (simp add: get_api_key_fst decode_def split: if_splits)
next
  assume "client c = None"
  then show "fst (get_api_key str_lower ops c provider) = Inr None"
    by (simp add: get_api_key_def get_no_client)
next
  fix b e
  assume "client c = Some b
    \<and> fst (client_retrieve ops b (session_id c) (credential_name str_lower provider)) = Inl e
    \<and> \<not> is_Exception e"
  then show "fst (get_api_key str_lower ops c provider) = Inl e"
    by (simp add: get_api_key_fst)
qed

theorem empty_key_is_missing_witness:
  "fst (client_retrieve memory_client (vault_with ''anthropic_api_key'' [])
          (session_id (provider_on (vault_with ''anthropic_api_key'' [])))
          (credential_name ascii_lower ''anthropic'')) = Inr []
   \<and> fst (get_llm_with_avp ascii_lower memory_client (\<lambda>m. True) ''anthropic''
            (provider_on (vault_with ''anthropic_api_key'' [])) None [])
       = Inl (ValueError ''No API key found for provider: anthropic'')
   \<and> fst (client_retrieve memory_client empty_vault (session_id (provider_on empty_vault))
            (credential_name ascii_lower ''anthropic''))
       = Inl (Exception_other ''SecretNotFoundError'')
   \<and> is_Exception (Exception_other ''SecretNotFoundError'')
   \<and> fst (get_api_key ascii_lower memory_client (provider_on empty_vault) ''anthropic'')
       = Inr None"
proof -
  let ?c = "provider_on (vault_with ''anthropic_api_key'' [])"
  let ?e = "provider_on empty_vault"
  have c: "client ?c = Some (vault_with ''anthropic_api_key'' [])"
    by simp
  have r: "fst (client_retrieve memory_client (vault_with ''anthropic_api_key'' [])
            (session_id ?c) (credential_name ascii_lower ''anthropic'')) = Inr []"
    by (simp add: cn_anthropic vault_with_retrieve)
  have c0: "client ?e = Some empty_vault"
    by simp
  have r0: "fst (client_retrieve memory_client empty_vault (session_id ?e)
            (credential_name ascii_lower ''anthropic''))
       = Inl (Exception_other ''SecretNotFoundError'')"
    by (simp add: mem_retrieve empty_vault_def)
  have x: "is_Exception (Exception_other ''SecretNotFoundError'')"
    by simp
  from empty_key_is_missing [where c = "?c" and ops = memory_client
      and str_lower = ascii_lower and provider = "''anthropic''" and imp = "\<lambda>m. True"
      and model = None and kwargs = "[]"] c r
  have g: "fst (get_llm_with_avp ascii_lower memory_client (\<lambda>m. True) ''anthropic'' ?c None [])
       = Inl (ValueError (''No API key found for provider: '' @ ''anthropic''))"
    by blast
  from empty_key_is_missing [where c = "?e" and ops = memory_client
      and str_lower = ascii_lower and provider = "''anthropic''" and imp = "\<lambda>m. True"
      and model = None and kwargs = "[]"] c0 r0 x
  have n: "fst (get_api_key ascii_lower memory_client ?e ''anthropic'') = Inr None"
    by blast
  from r g r0 x n show ?thesis
    by simp
qed

text \<open>
  So \<^verbatim>\<open>get_api_key\<close> can raise when the vault client fails: here the call of
  \<^verbatim>\<open>retrieve\<close> is interrupted.
\<close>

theorem empty_key_is_missing_counterexample:
  "fst (client_retrieve interrupted_client empty_vault (session_id (provider_on empty_vault))
          (credential_name ascii_lower ''anthropic''))
     = Inl (BaseException_other ''KeyboardInterrupt'')
   \<and> fst (get_api_key ascii_lower interrupted_client (provider_on empty_vault) ''anthropic'')
     = Inl (BaseException_other ''KeyboardInterrupt'')"
  by (simp add: get_api_key_def get_def interrupted_client_def provider_on_def)

lemma cn_unknown_key:
  "fst (client_retrieve memory_client (vault_with ''unknown-provider_api_key'' ''sk-test'')
          sid (credential_name ascii_lower ''unknown-provider'')) = Inr ''sk-test''"
  by (simp add: cn_unknown vault_with_retrieve)

subsection \<open>The client factory on a provider it does not know\<close>

text \<open>
  Claim C1, as the code has it. The API key is looked up before the provider name is
  examined. For every provider name whose lower-case form \<^verbatim>\<open>provider.lower()\<close> is
  not one of anthropic, openai, cohere, mistral: when \<^verbatim>\<open>get_api_key\<close> returns a
  key that is not empty, \<^verbatim>\<open>get_llm_with_avp\<close> raises the \<^verbatim>\<open>ValueError\<close>
  "Unknown provider: ... Supported: anthropic, openai, cohere, mistral", with the
  lower-case form of the name and the list of the known providers; when
  \<^verbatim>\<open>get_api_key\<close> returns \<^verbatim>\<open>None\<close> or the empty string, it raises the error
  "No API key found for provider: ..." instead.
\<close>

theorem unknown_provider:
  "str_lower provider \<notin> {''anthropic'', ''openai'', ''cohere'', ''mistral''} \<Longrightarrow>
   (\<forall>k. fst (get_api_key str_lower ops c provider) = Inr (Some k) \<and> k \<noteq> []
      \<longrightarrow> fst (get_llm_with_avp str_lower ops imp provider c model kwargs)
            = Inl (ValueError (''Unknown provider: '' @ str_lower provider
                     @ ''. Supported: anthropic, openai, cohere, mistral'')))
   \<and> (fst (get_api_key str_lower ops c provider) = Inr None
        \<or> fst (get_api_key str_lower ops c provider) = Inr (Some [])
      \<longrightarrow> fst (get_llm_with_avp str_lower ops imp provider c model kwargs)
            = Inl (ValueError (''No API key found for provider: '' @ provider)))"
  using llm_unknown [of str_lower ops c provider _ imp model kwargs]
    llm_missing [of str_lower ops c provider imp model kwargs]
  by blast

theorem unknown_provider_witness:
  "ascii_lower ''unknown-provider'' \<notin> {''anthropic'', ''openai'', ''cohere'', ''mistral''}
   \<and> fst (get_api_key ascii_lower memory_client
             (provider_on (vault_with ''unknown-provider_api_key'' ''sk-test''))
             ''unknown-provider'') = Inr (Some ''sk-test'')
   \<and> fst (get_llm_with_avp ascii_lower memory_client (\<lambda>m. True) ''unknown-provider''
             (provider_on (vault_with ''unknown-provider_api_key'' ''sk-test'')) None [])
       = Inl (ValueError
           ''Unknown provider: unknown-provider. Supported: anthropic, openai, cohere, mistral'')
   \<and> fst (get_api_key ascii_lower memory_client
             (provider_on (vault_with ''unknown-provider_api_key'' [CHR 0xFF]))
             ''unknown-provider'') = Inr None
   \<and> fst (get_llm_with_avp ascii_lower memory_client (\<lambda>m. True) ''unknown-provider''
             (provider_on (vault_with ''unknown-provider_api_key'' [CHR 0xFF])) None [])
       = Inl (ValueError ''No API key found for provider: unknown-provider'')"
proof -
  let ?c = "provider_on (vault_with ''unknown-provider_api_key'' ''sk-test'')"
  let ?d = "provider_on (vault_with ''unknown-provider_api_key'' [CHR 0xFF])"
  have a: "ascii_lower ''unknown-provider'' \<notin> {''anthropic'', ''openai'', ''cohere'', ''mistral''}"
    by (simp add: lower_unknown)
  have b: "fst (get_api_key ascii_lower memory_client ?c ''unknown-provider'')
             = Inr (Some ''sk-test'')"
    by (simp add: get_api_key_fst [OF provider_on_client] cn_unknown_key is_str_sk_test)
  have d: "fst (get_api_key ascii_lower memory_client ?d ''unknown-provider'') = Inr None"
    by (simp add: get_api_key_fst [OF provider_on_client] cn_unknown vault_with_retrieve
          not_is_str_ff)
  have k: "''sk-test'' \<noteq> []"
    by simp
  from unknown_provider [where str_lower = ascii_lower
      and provider = "''unknown-provider''" and ops = memory_client and c = "?c"
      and imp = "\<lambda>m. True" and model = None and kwargs = "[]", OF a] b k
  have u: "fst (get_llm_with_avp ascii_lower memory_client (\<lambda>m. True) ''unknown-provider''
             ?c None [])
       = Inl (ValueError (''Unknown provider: '' @ ascii_lower ''unknown-provider''
                @ ''. Supported: anthropic, openai, cohere, mistral''))"
    by blast
  from unknown_provider [where str_lower = ascii_lower
      and provider = "''unknown-provider''" and ops = memory_client and c = "?d"
      and imp = "\<lambda>m. True" and model = None and kwargs = "[]", OF a] d
  have m: "fst (get_llm_with_avp ascii_lower memory_client (\<lambda>m. True) ''unknown-provider''
             ?d None [])
       = Inl (ValueError (''No API key found for provider: '' @ ''unknown-provider''))"
    by blast
  from a b d u m show ?thesis
    by (simp add: lower_unknown)
qed

text \<open>
  Without a stored credential the same call does not reach the test of the provider
  name: on a vault that holds nothing, \<^verbatim>\<open>"unknown-provider"\<close> fails with the
  error for a missing API key, not with the one for an unknown provider.
\<close>

theorem unknown_provider_counterexample:
  "ascii_lower ''unknown-provider'' \<notin> {''anthropic'', ''openai'', ''cohere'', ''mistral''}
   \<and> fst (get_llm_with_avp ascii_lower memory_client (\<lambda>m. True) ''unknown-provider''
             (provider_on empty_vault) None [])
       = Inl (ValueError ''No API key found for provider: unknown-provider'')
   \<and> fst (get_llm_with_avp ascii_lower memory_client (\<lambda>m. True) ''unknown-provider''
             (provider_on empty_vault) None [])
       \<noteq> Inl (ValueError
           ''Unknown provider: unknown-provider. Supported: anthropic, openai, cohere, mistral'')"
proof -
  have a: "ascii_lower ''unknown-provider'' \<notin> {''anthropic'', ''openai'', ''cohere'', ''mistral''}"
    by (simp add: lower_unknown)
  have m: "fst (get_llm_with_avp ascii_lower memory_client (\<lambda>m. True) ''unknown-provider''
             (provider_on empty_vault) None [])
       = Inl (ValueError (''No API key found for provider: '' @ ''unknown-provider''))"
    by (rule llm_missing) (simp add: empty_get_api_key)
  from a m show ?thesis
    by simp
qed

subsection \<open>Reading a credential\<close>

text \<open>
  Claim C3, as the code has it. \<^verbatim>\<open>get(name, default)\<close> never raises an instance
  of \<^verbatim>\<open>Exception\<close>: when there is no client, when the call of the vault client
  fails with an instance of \<^verbatim>\<open>Exception\<close> (not found, transient fault) and when
  the value does not decode, it returns the default; when the call succeeds and the value
  decodes, it returns the decoded value. An exception of the vault client that is not an
  instance of \<^verbatim>\<open>Exception\<close> is not caught by \<^verbatim>\<open>except Exception\<close> and
  leaves \<^verbatim>\<open>get\<close>.
\<close>

theorem get_fail_soft:
  "(client p = None \<longrightarrow> fst (get ops p name dflt) = Inr dflt)
   \<and> (\<forall>b e. client p = Some b
         \<and> fst (client_retrieve ops b (session_id p) name) = Inl e \<and> is_Exception e
       \<longrightarrow> fst (get ops p name dflt) = Inr dflt)
   \<and> (\<forall>b v e. client p = Some b
         \<and> fst (client_retrieve ops b (session_id p) name) = Inr v \<and> decode v = Inl e
       \<longrightarrow> fst (get ops p name dflt) = Inr dflt)
   \<and> (\<forall>b v s. client p = Some b
         \<and> fst (client_retrieve ops b (session_id p) name) = Inr v \<and> decode v = Inr s
       \<longrightarrow> fst (get ops p name dflt) = Inr (Some s))
   \<and> (\<forall>b e. client p = Some b
         \<and> fst (client_retrieve ops b (session_id p) name) = Inl e \<and> \<not> is_Exception e
       \<longrightarrow> fst (get ops p name dflt) = Inl e)
   \<and> (\<forall>e. fst (get ops p name dflt) = Inl e \<longrightarrow> \<not> is_Exception e)"
proof (cases "client p")
  case None
  then show ?thesis by (simp add: get_no_client)
next
  case (Some b)
  obtain r b' where r: "client_retrieve ops b (session_id p) name = (r, b')"
    by (cases "client_retrieve ops b (session_id p) name")
  show ?thesis
    using Some r get_cases [OF Some r, of dflt]
    by (cases r) (auto simp: decode_def split: if_splits)
qed

theorem get_fail_soft_witness:
  "fst (get memory_client (provider_on empty_vault) ''nonexistent'' (Some ''default_value''))
     = Inr (Some ''default_value'')
   \<and> fst (get memory_client (provider_on (vault_with ''test_key'' [CHR 0xFF])) ''test_key'' None)
     = Inr None
   \<and> fst (get memory_client (provider_on (vault_with ''test_key'' ''test_value'')) ''test_key''
           None)
     = Inr (Some ''test_value'')"
proof -
  let ?p0 = "provider_on empty_vault"
  let ?p1 = "provider_on (vault_with ''test_key'' [CHR 0xFF])"
  let ?p2 = "provider_on (vault_with ''test_key'' ''test_value'')"
  have r0: "fst (client_retrieve memory_client empty_vault (session_id ?p0) ''nonexistent'')
              = Inl (Exception_other ''SecretNotFoundError'')"
    by (simp add: mem_retrieve empty_vault_def)
  have d1: "decode [CHR 0xFF] = Inl UnicodeDecodeError"
    by (simp add: decode_def not_is_str_ff)
  have d2: "decode ''test_value'' = Inr ''test_value''"
    by (simp add: decode_def is_str_test_value)
  note t0 = get_fail_soft [of ?p0 memory_client "''nonexistent''" "Some ''default_value''"]
  note t1 = get_fail_soft [of ?p1 memory_client "''test_key''" None]
  note t2 = get_fail_soft [of ?p2 memory_client "''test_key''" None]
  have g0: "fst (get memory_client ?p0 ''nonexistent'' (Some ''default_value''))
     = Inr (Some ''default_value'')"
    using t0 [THEN conjunct2, THEN conjunct1, rule_format,
        of empty_vault "Exception_other ''SecretNotFoundError''"] r0
    by simp
  have g1: "fst (get memory_client ?p1 ''test_key'' None) = Inr None"
    using t1 [THEN conjunct2, THEN conjunct2, THEN conjunct1, rule_format,
        of "vault_with ''test_key'' [CHR 0xFF]" "[CHR 0xFF]" UnicodeDecodeError] d1
    by (simp add: vault_with_retrieve)
  have g2: "fst (get memory_client ?p2 ''test_key'' None) = Inr (Some ''test_value'')"
    using t2 [THEN conjunct2, THEN conjunct2, THEN conjunct2, THEN conjunct1, rule_format,
        of "vault_with ''test_key'' ''test_value''" "''test_value''" "''test_value''"] d2
    by (simp add: vault_with_retrieve)
  from g0 g1 g2 show ?thesis
    by simp
qed

text \<open>
  So \<^verbatim>\<open>get\<close> can raise: here the call of \<^verbatim>\<open>retrieve\<close> is interrupted.
\<close>

theorem get_fail_soft_counterexample:
  "fst (get interrupted_client (provider_on empty_vault) ''test_key'' None)
     = Inl (BaseException_other ''KeyboardInterrupt'')"
  by (simp add: get_def interrupted_client_def provider_on_def)

subsection \<open>Reading back what was written\<close>



subsection \<open>The provider as a context manager\<close>



lemma methods_keep_client:
  "client p \<noteq> None \<Longrightarrow>
   client (snd (get ops p name dflt)) \<noteq> None
   \<and> client (snd (set_credential ops p name v labels)) \<noteq> None
   \<and> client (snd (delete ops p name)) \<noteq> None
   \<and> client (snd (get_api_key str_lower ops p provider)) \<noteq> None
   \<and> client (snd (close ops p)) \<noteq> None"
  by (auto simp: get_state get_api_key_def set_credential_def delete_def close_def
        split: prod.splits)



section \<open>Properties of the audit log\<close>

subsection \<open>The store\<close>

lemma lookup_append:
  "lookup (h @ [x]) a = (if a = length h then Some x else lookup h a)"
  by (auto simp: lookup_def nth_append)

lemma lookup_update:
  "lookup (h[a := x]) a' = (if a' = a \<and> a < length h then Some x else lookup h a')"
  by (auto simp: lookup_def)

lemma lookup_Some_less: "lookup h a = Some x \<Longrightarrow> a < length h"
  by (auto simp: lookup_def split: if_splits)

lemma wf_iff:
  "wf h cb \<longleftrightarrow> (\<exists>xs. lookup h (audit_log cb) = Some (ListObj xs) \<and> (\<forall>e\<in>set xs. is_entry h e))"
  by (auto simp: wf_def list_all_iff split: option.splits obj.splits)

lemma is_entry_iff: "is_entry h e \<longleftrightarrow> (\<exists>d. lookup h e = Some (DictObj d))"
  by (auto simp: is_entry_def split: option.splits obj.splits)

lemma deref_entry_dict: "lookup h e = Some (DictObj d) \<Longrightarrow> deref_entry h e = Some d"
  by (simp add: deref_entry_def)


lemma keeps_dicts_trans: "keeps_dicts h h1 \<Longrightarrow> keeps_dicts h1 h2 \<Longrightarrow> keeps_dicts h h2"
  by (simp add: keeps_dicts_def)

lemma keeps_dicts_append: "keeps_dicts h (h @ [x])"
  by (auto simp: keeps_dicts_def lookup_append dest: lookup_Some_less)

lemma keeps_dicts_update:
  "lookup h a = Some (ListObj xs) \<Longrightarrow> keeps_dicts h (h[a := y])"
  by (auto simp: keeps_dicts_def lookup_update)

lemma keeps_dicts_deref:
  "keeps_dicts h h' \<Longrightarrow> is_entry h e \<Longrightarrow> deref_entry h' e = deref_entry h e"
  by (auto simp: keeps_dicts_def is_entry_iff deref_entry_dict)

lemma keeps_dicts_is_entry: "keeps_dicts h h' \<Longrightarrow> is_entry h e \<Longrightarrow> is_entry h' e"
  by (auto simp: keeps_dicts_def is_entry_iff)

lemma keeps_dicts_map:
  "keeps_dicts h h' \<Longrightarrow> \<forall>e\<in>set xs. is_entry h e \<Longrightarrow>
   map (deref_entry h') xs = map (deref_entry h) xs"
  by (simp add: keeps_dicts_deref)

lemma snapshot_wf:
  assumes "wf h cb"
  shows "snapshot h cb = read_log h (audit_log cb)"
proof -
  from assms obtain xs where xs: "lookup h (audit_log cb) = Some (ListObj xs)"
    and en: "\<forall>e\<in>set xs. is_entry h e"
    by (auto simp: wf_iff)
  have "map (deref_entry (h @ [ListObj xs])) xs = map (deref_entry h) xs"
    using keeps_dicts_map [OF keeps_dicts_append en] .
  with xs show ?thesis
    by (simp add: snapshot_def get_audit_log_def alloc_def read_log_def lookup_append)
qed

lemma log_event_wf:
  assumes "lookup h (audit_log cb) = Some (ListObj xs)" and "\<forall>e\<in>set xs. is_entry h e"
  shows "log_event h cb now ev md
           = (Inr (), (h @ [DictObj (make_entry cb now ev md)])
                        [audit_log cb := ListObj (xs @ [length h])], cb)"
    and "wf ((h @ [DictObj (make_entry cb now ev md)])
                        [audit_log cb := ListObj (xs @ [length h])]) cb"
    and "keeps_dicts h ((h @ [DictObj (make_entry cb now ev md)])
                        [audit_log cb := ListObj (xs @ [length h])])"
    and "read_log ((h @ [DictObj (make_entry cb now ev md)])
                        [audit_log cb := ListObj (xs @ [length h])]) (audit_log cb)
           = Some (map (deref_entry h) xs @ [Some (make_entry cb now ev md)])"
proof -
  let ?d = "DictObj (make_entry cb now ev md)"
  let ?h1 = "h @ [?d]"
  let ?h2 = "?h1[audit_log cb := ListObj (xs @ [length h])]"
  from assms(1) have lt: "audit_log cb < length h"
    by (rule lookup_Some_less)
  then have l1: "lookup ?h1 (audit_log cb) = Some (ListObj xs)"
    using assms(1) by (simp add: lookup_append)
  show "log_event h cb now ev md = (Inr (), ?h2, cb)"
    using l1 by (simp add: log_event_def alloc_def)
  have k: "keeps_dicts h ?h2"
    using keeps_dicts_trans [OF keeps_dicts_append keeps_dicts_update [OF l1]] .
  then show "keeps_dicts h ?h2" .
  have new: "lookup ?h2 (length h) = Some ?d"
    using lt by (simp add: lookup_update lookup_append)
  have lst: "lookup ?h2 (audit_log cb) = Some (ListObj (xs @ [length h]))"
    using lt by (simp add: lookup_update)
  have old: "\<forall>e\<in>set xs. is_entry ?h2 e"
    using assms(2) k by (auto intro: keeps_dicts_is_entry)
  show "wf ?h2 cb"
    using lst old new by (auto simp: wf_iff is_entry_iff)
  show "read_log ?h2 (audit_log cb)
           = Some (map (deref_entry h) xs @ [Some (make_entry cb now ev md)])"
    using lst new keeps_dicts_map [OF k assms(2)]
    by (simp add: read_log_def deref_entry_dict)
qed


lemma wf_current_run [simp]: "wf h (cb\<lparr>current_run := x\<rparr>) = wf h cb"
  by (simp add: wf_def)

lemma snapshot_current_run [simp]: "snapshot h (cb\<lparr>current_run := x\<rparr>) = snapshot h cb"
  by (simp add: snapshot_def get_audit_log_def)

lemma log_stamps_current_run [simp]:
  "log_stamps h (cb\<lparr>current_run := x\<rparr>) = log_stamps h cb"
  by (simp add: log_stamps_def)


lemma log_event_step:
  assumes "wf h cb"
  shows "\<exists>h' es. log_event h cb now ev md = (Inr (), h', cb) \<and> wf h' cb \<and> keeps_dicts h h'
           \<and> snapshot h cb = Some es
           \<and> snapshot h' cb = Some (es @ [Some (make_entry cb now ev md)])"
proof -
  from assms obtain xs where xs: "lookup h (audit_log cb) = Some (ListObj xs)"
    and en: "\<forall>e\<in>set xs. is_entry h e"
    by (auto simp: wf_iff)
  note l = log_event_wf [OF xs en, of now ev md]
  have "snapshot h cb = Some (map (deref_entry h) xs)"
    using xs by (simp add: snapshot_wf [OF assms] read_log_def)
  moreover have "snapshot ((h @ [DictObj (make_entry cb now ev md)])
                        [audit_log cb := ListObj (xs @ [length h])]) cb
           = Some (map (deref_entry h) xs @ [Some (make_entry cb now ev md)])"
    using l(4) by (simp add: snapshot_wf [OF l(2)])
  ultimately show ?thesis
    using l(1) l(2) l(3) by blast
qed













lemma init_wf: "wf (fst (callback_init [])) (snd (callback_init []))"
  by (simp add: callback_init_def alloc_def wf_def lookup_def)

lemma init_snapshot: "snapshot (fst (callback_init [])) (snd (callback_init [])) = Some []"
  by code_simp





subsection \<open>Order of the entries\<close>



subsection \<open>The copy returned by get\_audit\_log\<close>




subsection \<open>on\_llm\_start\<close>

text \<open>
  Claim C9, as the code has it. When the value under \<^verbatim>\<open>"kwargs"\<close> in
  \<^verbatim>\<open>serialized\<close> is absent or a dict, and the value under \<^verbatim>\<open>"id"\<close> is absent,
  false, a list or a \<^verbatim>\<open>str\<close>, then \<^verbatim>\<open>on_llm_start\<close> returns without raising
  for every list of prompts and every run id, and appends exactly one entry, of kind
  \<^verbatim>\<open>llm_start\<close>, with the provider, the model and the number of prompts; the
  model is \<^verbatim>\<open>"unknown"\<close> when the key \<^verbatim>\<open>"kwargs"\<close> or the key
  \<^verbatim>\<open>"model"\<close> is missing, and the provider is \<^verbatim>\<open>"unknown"\<close> when the key
  \<^verbatim>\<open>"id"\<close> is missing or its list is empty.
\<close>

theorem on_llm_start_total:
  assumes "wf h cb"
    and "map_of serialized ''kwargs'' = None
         \<or> (\<exists>kw. map_of serialized ''kwargs'' = Some (PDict kw))"
    and "\<not> truthy (dict_get serialized ''id'' PNone)
         \<or> (\<exists>xs. map_of serialized ''id'' = Some (PList xs))
         \<or> (\<exists>s. map_of serialized ''id'' = Some (PStr s))"
  shows "(\<exists>h' es.
            on_llm_start h cb now serialized prompts run_id
              = (Inr (), h', cb\<lparr>current_run := (if truthy_str run_id then run_id else None)\<rparr>)
            \<and> snapshot h cb = Some es
            \<and> snapshot h' cb
                = Some (es @ [Some (make_entry
                    (cb\<lparr>current_run := (if truthy_str run_id then run_id else None)\<rparr>)
                    now ''llm_start''
                    (Some [(''provider'', start_provider serialized),
                           (''model'', start_model serialized),
                           (''prompt_count'', PInt (int (length prompts)))]))]))
         \<and> (map_of serialized ''kwargs'' = None \<longrightarrow> start_model serialized = PStr ''unknown'')
         \<and> (\<forall>kw. map_of serialized ''kwargs'' = Some (PDict kw) \<and> map_of kw ''model'' = None
               \<longrightarrow> start_model serialized = PStr ''unknown'')
         \<and> (map_of serialized ''id'' = None \<or> map_of serialized ''id'' = Some (PList [])
               \<longrightarrow> start_provider serialized = PStr ''unknown'')"
proof -
  let ?cb1 = "cb\<lparr>current_run := (if truthy_str run_id then run_id else None)\<rparr>"
  let ?md = "Some [(''provider'', start_provider serialized),
                   (''model'', start_model serialized),
                   (''prompt_count'', PInt (int (length prompts)))]"
  have m: "py_get (dict_get serialized ''kwargs'' (PDict [])) ''model'' (PStr ''unknown'')
             = Inr (start_model serialized)"
    using assms(2) by (auto simp: dict_get_def start_model_def split: option.splits)
  have p: "(if truthy (dict_get serialized ''id'' PNone)
            then subscript_last (dict_get serialized ''id'' (PList [PStr ''unknown'']))
            else Inr (PStr ''unknown'')) = Inr (start_provider serialized)"
    using assms(3)
    by (auto simp: dict_get_def start_provider_def split: option.splits pyval.splits)
  have e: "on_llm_start h cb now serialized prompts run_id
             = log_event h ?cb1 now ''llm_start'' ?md"
    by (simp add: on_llm_start_def Let_def m p)
  have w: "wf h ?cb1"
    using assms(1) by simp
  from log_event_step [OF w, of now "''llm_start''" ?md] e
  have "\<exists>h' es.
            on_llm_start h cb now serialized prompts run_id = (Inr (), h', ?cb1)
            \<and> snapshot h cb = Some es
            \<and> snapshot h' cb = Some (es @ [Some (make_entry ?cb1 now ''llm_start'' ?md)])"
    by auto
  then show ?thesis
    by (auto simp: start_model_def start_provider_def)
qed

theorem on_llm_start_total_witness:
  "wf (fst (callback_init [])) (snd (callback_init []))
   \<and> map_of demo_serialized ''kwargs''
       = Some (PDict [(''model'', PStr ''claude-3-haiku-20240307'')])
   \<and> map_of demo_serialized ''id'' = Some (PList [PStr ''langchain'', PStr ''ChatAnthropic''])
   \<and> fst (on_llm_start (fst (callback_init [])) (snd (callback_init []))
            ''2024-01-01T00:00:01'' demo_serialized [''Hello''] (Some ''run-1'')) = Inr ()
   \<and> snapshot
         (fst (snd (on_llm_start (fst (callback_init [])) (snd (callback_init []))
            ''2024-01-01T00:00:01'' demo_serialized [''Hello''] (Some ''run-1''))))
         (snd (callback_init []))
       = Some [Some [(''timestamp'', PStr ''2024-01-01T00:00:01''),
                     (''event'', PStr ''llm_start''),
                     (''run_id'', PStr ''run-1''),
                     (''metadata'', PDict [(''provider'', PStr ''ChatAnthropic''),
                                          (''model'', PStr ''claude-3-haiku-20240307''),
                                          (''prompt_count'', PInt 1)])]]
   \<and> map_of ([] :: (string \<times> pyval) list) ''kwargs'' = None
   \<and> start_model [] = PStr ''unknown''
   \<and> start_provider [] = PStr ''unknown''"
proof -
  let ?h = "fst (callback_init [])" and ?cb = "snd (callback_init [])"
  have k: "map_of demo_serialized ''kwargs''
       = Some (PDict [(''model'', PStr ''claude-3-haiku-20240307'')])"
    by (simp add: demo_serialized_def)
  have i: "map_of demo_serialized ''id''
       = Some (PList [PStr ''langchain'', PStr ''ChatAnthropic''])"
    by (simp add: demo_serialized_def)
  have a: "map_of demo_serialized ''kwargs'' = None
           \<or> (\<exists>kw. map_of demo_serialized ''kwargs'' = Some (PDict kw))"
    using k by simp
  have b: "\<not> truthy (dict_get demo_serialized ''id'' PNone)
           \<or> (\<exists>xs. map_of demo_serialized ''id'' = Some (PList xs))
           \<or> (\<exists>s. map_of demo_serialized ''id'' = Some (PStr s))"
    using i by simp
  have a0: "map_of ([] :: (string \<times> pyval) list) ''kwargs'' = None
           \<or> (\<exists>kw. map_of ([] :: (string \<times> pyval) list) ''kwargs'' = Some (PDict kw))"
    by simp
  have b0: "\<not> truthy (dict_get [] ''id'' PNone)
           \<or> (\<exists>xs. map_of ([] :: (string \<times> pyval) list) ''id'' = Some (PList xs))
           \<or> (\<exists>s. map_of ([] :: (string \<times> pyval) list) ''id'' = Some (PStr s))"
    by (simp add: dict_get_def)
  note t = on_llm_start_total [OF init_wf a b, where now = "''2024-01-01T00:00:01''"
      and prompts = "[''Hello'']" and run_id = "Some ''run-1''"]
  note t0 = on_llm_start_total [OF init_wf a0 b0, where now = "''2024-01-01T00:00:01''"
      and prompts = "[''Hello'']" and run_id = "Some ''run-1''"]
  from t obtain h' es where
    o: "on_llm_start ?h ?cb ''2024-01-01T00:00:01'' demo_serialized [''Hello''] (Some ''run-1'')
          = (Inr (), h', ?cb\<lparr>current_run := (if truthy_str (Some ''run-1'') then Some ''run-1''
                                                else None)\<rparr>)"
    and s0: "snapshot ?h ?cb = Some es"
    and s1: "snapshot h' ?cb
       = Some (es @ [Some (make_entry
           (?cb\<lparr>current_run := (if truthy_str (Some ''run-1'') then Some ''run-1'' else None)\<rparr>)
           ''2024-01-01T00:00:01'' ''llm_start''
           (Some [(''provider'', start_provider demo_serialized),
                  (''model'', start_model demo_serialized),
                  (''prompt_count'', PInt (int (length [''Hello''])))]))])"
    by blast
  from s0 have es: "es = []"
    by (simp add: init_snapshot)
  have m: "start_model demo_serialized = PStr ''claude-3-haiku-20240307''"
    by (simp add: start_model_def k)
  have p: "start_provider demo_serialized = PStr ''ChatAnthropic''"
    by (simp add: start_provider_def i)
  from t0 have u: "start_model [] = PStr ''unknown''" "start_provider [] = PStr ''unknown''"
    by simp_all
  from o s1 show ?thesis
    using init_wf k i u
    by (simp add: es m p make_entry_def)
qed

text \<open>
  Two values outside these: with \<^verbatim>\<open>None\<close> under \<^verbatim>\<open>"kwargs"\<close> the method
  raises \<^verbatim>\<open>AttributeError\<close>, with the number 5 under \<^verbatim>\<open>"id"\<close> it raises
  \<^verbatim>\<open>TypeError\<close>, and neither call records an entry.
\<close>

theorem on_llm_start_total_counterexample:
  "wf (fst (callback_init [])) (snd (callback_init []))
   \<and> on_llm_start (fst (callback_init [])) (snd (callback_init []))
        ''2024-01-01T00:00:01'' [(''kwargs'', PNone)] [''Hello''] None
      = (Inl (AttributeError ''NoneType'' ''get''),
         fst (callback_init []), snd (callback_init []))
   \<and> on_llm_start (fst (callback_init [])) (snd (callback_init []))
        ''2024-01-01T00:00:01'' [(''id'', PInt 5)] [''Hello''] None
      = (Inl (TypeError (CHR 0x27 # ''int'' @ CHR 0x27 # '' object is not subscriptable'')),
         fst (callback_init []), snd (callback_init []))
   \<and> snapshot (fst (callback_init [])) (snd (callback_init [])) = Some []"
  by code_simp

end
